theory Spec2Isabelle
  imports Complex_Main
begin

section \<open>SafeRoute crime-risk scoring: a shallow embedding\<close>

text \<open>
  The scoring algorithm of the repository is the Python of its scoring document
  (\<^verbatim>\<open>get_recency_weight\<close>, \<^verbatim>\<open>calculate_risk_score\<close>, \<^verbatim>\<open>segment_route\<close>,
  \<^verbatim>\<open>calculate_segment_risk\<close>, \<^verbatim>\<open>score_route\<close>, the monthly aggregation fold and the
  hexagon scoring loop) together with the threshold code of the TypeScript frontend
  (\<^verbatim>\<open>getRiskClass\<close>, the heatmap style function, the route colour).

  Python's \<^verbatim>\<open>float\<close> is modelled by \<^typ>\<open>real\<close>: every decimal literal of the source is
  the rational number it denotes and arithmetic is exact, so the rounding error of binary
  floating point is outside the model. Python's \<^verbatim>\<open>int\<close> is \<^typ>\<open>int\<close>, a \<^verbatim>\<open>str\<close> is a
  \<^typ>\<open>string\<close>, a \<^verbatim>\<open>dict\<close> is an association list in insertion order, and an exception
  is the left injection of a sum type.
\<close>

datatype py_error = ZeroDivisionError | KeyError | IndexError

subsection \<open>Recency weights\<close>

text \<open>The dictionary literal inside \<^verbatim>\<open>get_recency_weight\<close>, entry by entry.\<close>

definition RECENCY_WEIGHTS :: "(int \<times> real) list" where
  "RECENCY_WEIGHTS =
     [(0, 1.00), (1, 0.95), (2, 0.90), (3, 0.85), (4, 0.75), (5, 0.70), (6, 0.65),
      (7, 0.60), (8, 0.55), (9, 0.50), (10, 0.45), (11, 0.40), (12, 0.35)]"

text \<open>\<^verbatim>\<open>RECENCY_WEIGHTS.get(months_ago, 0.30)\<close>: the stored value, or the default for a key
  that is absent (every integer outside 0..12, negative ones included).\<close>

definition get_recency_weight :: "int \<Rightarrow> real" where
  "get_recency_weight months_ago =
     (case map_of RECENCY_WEIGHTS months_ago of Some w \<Rightarrow> w | None \<Rightarrow> 0.30)"

subsection \<open>The risk function\<close>

datatype risk_tier = very_low | low | moderate | high | very_high

fun RISK_THRESHOLDS :: "risk_tier \<Rightarrow> real" where
  "RISK_THRESHOLDS very_low = 5.0"
| "RISK_THRESHOLDS low = 20.0"
| "RISK_THRESHOLDS moderate = 50.0"
| "RISK_THRESHOLDS high = 100.0"
| "RISK_THRESHOLDS very_high = 200.0"

text \<open>The \<^verbatim>\<open>if\<close>/\<^verbatim>\<open>elif\<close> chain of \<^verbatim>\<open>calculate_risk_score\<close>, in the source's order and with
  the source's constants (the comparisons read the threshold table, the interpolation
  uses the literals).\<close>

definition calculate_risk_score :: "real \<Rightarrow> real" where
  "calculate_risk_score weighted_count =
     (if weighted_count = 0 then 0.0
      else if weighted_count < RISK_THRESHOLDS very_low then
        0.2 * weighted_count / RISK_THRESHOLDS very_low
      else if weighted_count < RISK_THRESHOLDS low then
        (let progress = (weighted_count - 5.0) / (20.0 - 5.0) in 0.2 + 0.2 * progress)
      else if weighted_count < RISK_THRESHOLDS moderate then
        (let progress = (weighted_count - 20.0) / (50.0 - 20.0) in 0.4 + 0.2 * progress)
      else if weighted_count < RISK_THRESHOLDS high then
        (let progress = (weighted_count - 50.0) / (100.0 - 50.0) in 0.6 + 0.2 * progress)
      else if weighted_count < RISK_THRESHOLDS very_high then
        (let progress = (weighted_count - 100.0) / (200.0 - 100.0) in 0.8 + 0.15 * progress)
      else
        (let excess = min (weighted_count - 200.0) 200.0 in 0.95 + 0.05 * (excess / 200.0)))"

subsection \<open>Safety score and risk class\<close>

text \<open>Python's \<^verbatim>\<open>round(x, 1)\<close> on exact values: the nearest multiple of one tenth, a tie
  going to the even one.\<close>

definition round_half_even :: "real \<Rightarrow> int" where
  "round_half_even y =
     (let f = \<lfloor>y\<rfloor>; d = y - of_int f
      in if d < 1 / 2 then f else if 1 / 2 < d then f + 1 else if even f then f else f + 1)"

definition py_round1 :: "real \<Rightarrow> real" where
  "py_round1 x = of_int (round_half_even (x * 10)) / 10"

text \<open>Step 3.3 of the scoring document: \<^verbatim>\<open>safety_score = round((1.0 - risk_score) * 100, 1)\<close>.\<close>

definition safety_score_conversion :: "real \<Rightarrow> real" where
  "safety_score_conversion risk_score = py_round1 ((1.0 - risk_score) * 100)"

text \<open>\<^verbatim>\<open>getRiskClass\<close> of the history and dashboard pages (both pages carry the same body).
  A JavaScript \<^verbatim>\<open>number\<close> is read as a real; \<^verbatim>\<open>NaN\<close> is outside the model.\<close>

definition getRiskClass :: "real \<Rightarrow> string" where
  "getRiskClass score =
     (if score \<ge> 70 then ''low'' else if score \<ge> 40 then ''medium'' else ''high'')"

text \<open>The \<^verbatim>\<open>style\<close> callback of the heatmap layer: \<^verbatim>\<open>safety_score || 0\<close> reads a missing
  score (and the score 0) as 0; the result is the pair of fill colour and fill opacity.\<close>

definition heatmap_style :: "real option \<Rightarrow> string \<times> real" where
  "heatmap_style safety_score =
     (let safetyScore = (case safety_score of None \<Rightarrow> 0 | Some v \<Rightarrow> v)
      in if safetyScore \<ge> 75 then (''#16a34a'', 0.25)
         else if safetyScore \<ge> 50 then (''#ca8a04'', 0.35)
         else (''#dc2626'', 0.5))"

text \<open>The colour of a route drawn without per-segment data.\<close>

definition route_color :: "real \<Rightarrow> string" where
  "route_color safety_score =
     (if safety_score < 50 then ''#ef4444''
      else if safety_score < 75 then ''#eab308'' else ''#22c55e'')"

subsection \<open>Cells and the monthly aggregation fold\<close>

type_synonym date = "int \<times> int \<times> int"
type_synonym point = "real \<times> real"

text \<open>\<^verbatim>\<open>SafetyCell\<close> with the fields the scoring reads; the polygon and the update
  timestamp take no part in any computation modelled here.\<close>

record SafetyCell =
  cell_id :: string
  month :: date
  crime_count_total :: int
  crime_count_weighted :: real
  stats :: "(string \<times> int) list"

text \<open>\<^verbatim>\<open>stats[category] += 1\<close>. The aggregation starts every cell from the schema defaults
  (\<^verbatim>\<open>stats = {}\<close>), so the first event of a category has to create its entry: an absent key
  counts as 0, as in a \<^verbatim>\<open>defaultdict(int)\<close>; a new key goes to the end of the dictionary.\<close>

fun stats_incr :: "string \<Rightarrow> (string \<times> int) list \<Rightarrow> (string \<times> int) list" where
  "stats_incr category [] = [(category, 1)]"
| "stats_incr category ((k, n) # rest) =
     (if k = category then (k, n + 1) # rest else (k, n) # stats_incr category rest)"

text \<open>The body of the aggregation loop for the cell an incident falls into. The harm
  weight of a category comes from the category table, which is configuration: it is the
  parameter \<open>harm_weight\<close>.\<close>

definition add_incident :: "(string \<Rightarrow> real) \<Rightarrow> string \<Rightarrow> SafetyCell \<Rightarrow> SafetyCell" where
  "add_incident harm_weight category cell =
     cell\<lparr>crime_count_total := crime_count_total cell + 1,
          crime_count_weighted := crime_count_weighted cell + harm_weight category,
          stats := stats_incr category (stats cell)\<rparr>"

record CrimeIncident =
  external_id :: string
  incident_month :: date
  category_id :: string
  geom :: point

text \<open>A cell that the fold meets for the first time: the defaults of the table schema.\<close>

definition new_cell :: "string \<Rightarrow> date \<Rightarrow> SafetyCell" where
  "new_cell cid m =
     \<lparr>cell_id = cid, month = m, crime_count_total = 0, crime_count_weighted = 0, stats = []\<rparr>"

text \<open>Step 1.2, the loop over the incidents of a month. The H3 library that turns a location
  into a cell index is external, so the key \<^verbatim>\<open>f"{h3_index}_{month.strftime('%Y%m')}"\<close> of an
  incident is the parameter \<open>cell_id_of\<close>.\<close>

fun monthly_aggregation ::
  "(string \<Rightarrow> real) \<Rightarrow> (CrimeIncident \<Rightarrow> string) \<Rightarrow> CrimeIncident list \<Rightarrow>
   (string \<rightharpoonup> SafetyCell) \<Rightarrow> (string \<rightharpoonup> SafetyCell)" where
  "monthly_aggregation harm_weight cell_id_of [] cells = cells"
| "monthly_aggregation harm_weight cell_id_of (incident # month_crimes) cells =
     (let cid = cell_id_of incident;
          cell = (case cells cid of None \<Rightarrow> new_cell cid (incident_month incident)
                  | Some c \<Rightarrow> c)
      in monthly_aggregation harm_weight cell_id_of month_crimes
           (cells(cid \<mapsto> add_incident harm_weight (category_id incident) cell)))"

subsection \<open>Segment risk\<close>

text \<open>The two rows of \<^verbatim>\<open>CRIME_TIME_WEIGHTS\<close> that the document spells out.\<close>

definition CRIME_TIME_WEIGHTS :: "string \<rightharpoonup> (string \<rightharpoonup> real)" where
  "CRIME_TIME_WEIGHTS =
     map_of
       [(''violent-crime'',
           map_of [(''night'', 2.5), (''evening'', 2.0), (''day'', 1.0), (''morning'', 0.8)]),
        (''burglary'',
           map_of [(''night'', 2.0), (''evening'', 1.5), (''day'', 1.2), (''morning'', 1.0)])]"

text \<open>\<^verbatim>\<open>sum(count * CRIME_TIME_WEIGHTS[cat][time_of_day] for cat, count in stats.items())\<close>:
  the running total, with \<^verbatim>\<open>KeyError\<close> at the first category or time bucket that the table
  lacks.\<close>

fun tod_sum ::
  "(string \<rightharpoonup> (string \<rightharpoonup> real)) \<Rightarrow> string \<Rightarrow> real \<Rightarrow> (string \<times> int) list \<Rightarrow> py_error + real"
  where
  "tod_sum weights time_of_day acc [] = Inr acc"
| "tod_sum weights time_of_day acc ((cat, count) # items) =
     (case weights cat of
        None \<Rightarrow> Inl KeyError
      | Some row \<Rightarrow>
          (case row time_of_day of
             None \<Rightarrow> Inl KeyError
           | Some m \<Rightarrow> tod_sum weights time_of_day (acc + of_int count * m) items))"

text \<open>The loop of \<^verbatim>\<open>calculate_segment_risk\<close>. \<^verbatim>\<open>if time_of_day:\<close> is false for \<^verbatim>\<open>None\<close> and
  for the empty string. \<^verbatim>\<open>calculate_months_ago\<close> is not part of the document and is the
  parameter \<open>calculate_months_ago\<close>.\<close>

fun segment_risk_loop ::
  "(string \<rightharpoonup> (string \<rightharpoonup> real)) \<Rightarrow> (date \<Rightarrow> date \<Rightarrow> int) \<Rightarrow> date \<Rightarrow> string option \<Rightarrow>
   real \<Rightarrow> SafetyCell list \<Rightarrow> py_error + real" where
  "segment_risk_loop weights calculate_months_ago current_month time_of_day total_risk [] = Inr total_risk"
| "segment_risk_loop weights calculate_months_ago current_month time_of_day total_risk (cell # cells) =
     (let months_ago = calculate_months_ago (month cell) current_month;
          recency_mult = get_recency_weight months_ago
      in case (case time_of_day of
                 None \<Rightarrow> Inr (crime_count_weighted cell)
               | Some t \<Rightarrow> if t = [] then Inr (crime_count_weighted cell)
                           else tod_sum weights t 0 (stats cell)) of
           Inl e \<Rightarrow> Inl e
         | Inr weighted_count \<Rightarrow>
             segment_risk_loop weights calculate_months_ago current_month time_of_day
               (total_risk + weighted_count * recency_mult) cells)"

definition calculate_segment_risk ::
  "(string \<rightharpoonup> (string \<rightharpoonup> real)) \<Rightarrow> (date \<Rightarrow> date \<Rightarrow> int) \<Rightarrow> SafetyCell list \<Rightarrow> date \<Rightarrow>
   string option \<Rightarrow> py_error + real" where
  "calculate_segment_risk weights calculate_months_ago cells current_month time_of_day =
     (case segment_risk_loop weights calculate_months_ago current_month time_of_day 0.0 cells of
        Inl e \<Rightarrow> Inl e
      | Inr total_weighted_risk \<Rightarrow>
          Inr (if cells \<noteq> [] then total_weighted_risk / of_nat (length cells) else 0.0))"

subsection \<open>Route segmentation\<close>

text \<open>The \<^verbatim>\<open>length\<close> of a Shapely \<^verbatim>\<open>LineString\<close>: the planar Euclidean length of the
  polyline in the units of its coordinates, here degrees of longitude and latitude.\<close>

fun seg_dist :: "point \<Rightarrow> point \<Rightarrow> real" where
  "seg_dist (x1, y1) (x2, y2) = sqrt ((x2 - x1)\<^sup>2 + (y2 - y1)\<^sup>2)"

fun linestring_length :: "point list \<Rightarrow> real" where
  "linestring_length (p # q # ps) = seg_dist p q + linestring_length (q # ps)"
| "linestring_length _ = 0"

text \<open>The \<^verbatim>\<open>for\<close> loop of \<^verbatim>\<open>segment_route\<close>, with its two local variables
  \<^verbatim>\<open>current_segment\<close> and \<^verbatim>\<open>segments\<close>.\<close>

fun segment_walk :: "real \<Rightarrow> point list \<Rightarrow> point list list \<Rightarrow> point list \<Rightarrow> point list list"
  where
  "segment_walk max_segment_length current_segment segments [] = segments"
| "segment_walk max_segment_length current_segment segments (pt # rest) =
     (let current_segment = current_segment @ [pt]
      in if linestring_length current_segment \<ge> max_segment_length
         then segment_walk max_segment_length [pt] (segments @ [current_segment]) rest
         else segment_walk max_segment_length current_segment segments rest)"

text \<open>\<^verbatim>\<open>route_line.coords[0]\<close> raises \<^verbatim>\<open>IndexError\<close> on an empty line.\<close>

definition segment_route :: "point list \<Rightarrow> real \<Rightarrow> py_error + point list list" where
  "segment_route coords max_segment_length =
     (case coords of
        [] \<Rightarrow> Inl IndexError
      | p # rest \<Rightarrow> Inr (segment_walk max_segment_length [p] [] rest))"

text \<open>The default value of the parameter \<^verbatim>\<open>max_segment_length\<close>.\<close>

definition default_max_segment_length :: real where
  "default_max_segment_length = 0.001"

text \<open>What the local variable \<^verbatim>\<open>current_segment\<close> holds when the loop of
  \<^verbatim>\<open>segment_route\<close> ends: the same walk, returning the other variable.\<close>

fun trailing_remainder :: "real \<Rightarrow> point list \<Rightarrow> point list \<Rightarrow> point list" where
  "trailing_remainder max_segment_length current_segment [] = current_segment"
| "trailing_remainder max_segment_length current_segment (pt # rest) =
     (let current_segment = current_segment @ [pt]
      in if linestring_length current_segment \<ge> max_segment_length
         then trailing_remainder max_segment_length [pt] rest
         else trailing_remainder max_segment_length current_segment rest)"

text \<open>The conversion between metres and degrees that \<^verbatim>\<open>find_intersecting_cells\<close> applies
  to its buffer: \<^verbatim>\<open>buffer_degrees = buffer_meters / 111000.0\<close>.\<close>

definition degrees_of_meters :: "real \<Rightarrow> real" where
  "degrees_of_meters meters = meters / 111000.0"

subsection \<open>Route and hexagon scores\<close>

record RouteSegment =
  segment_index :: int
  start_point :: point
  end_point :: point
  risk_score :: real
  cell_count :: int

text \<open>\<^verbatim>\<open>score_route\<close>: the mean divides by \<^verbatim>\<open>len(segments)\<close> with no guard, so an empty
  list raises \<^verbatim>\<open>ZeroDivisionError\<close>.\<close>

definition score_route :: "RouteSegment list \<Rightarrow> py_error + real" where
  "score_route segments =
     (if length segments = 0 then Inl ZeroDivisionError
      else
        (let avg_segment_risk = sum_list (map risk_score segments) / of_nat (length segments);
             risk_score = calculate_risk_score avg_segment_risk;
             safety_score = (1.0 - risk_score) * 100
         in Inr safety_score))"

text \<open>An entry of \<^verbatim>\<open>cell_aggregates\<close> (the geometry left out), and the hexagon scoring loop
  of the snapshot endpoint, which gives every \<^verbatim>\<open>h3_index\<close> its risk and safety score.\<close>

record cell_aggregate =
  total_crimes :: int
  total_weighted :: real
  months :: "string list"
  agg_stats :: "(string \<times> int) list"

definition hexagon_score :: "cell_aggregate \<Rightarrow> real \<times> real" where
  "hexagon_score agg =
     (let weighted_count = total_weighted agg;
          risk_score = calculate_risk_score weighted_count;
          safety_score = (1.0 - risk_score) * 100
      in (risk_score, safety_score))"

definition hexagon_scores :: "(string \<times> cell_aggregate) list \<Rightarrow> (string \<times> real \<times> real) list"
  where
  "hexagon_scores cell_aggregates = map (\<lambda>(h3_index, agg). (h3_index, hexagon_score agg)) cell_aggregates"

subsection \<open>The weighted total of a hexagon\<close>

text \<open>Modelled from the spec: the sum that the snapshot endpoint takes over the categories
  of one month bucket when a time of day is supplied (its aggregation code in
  \<^verbatim>\<open>app/api/v1/safety.py\<close> is not among the sources). Section 4.5, step 3:
  \<^verbatim>\<open>w_cell = sum of stats[cat] * harm_weight[cat] * tod[cat][time_of_day]\<close>. The worked
  Example 1 of the scoring document computes the same products. A category or time bucket
  that the table lacks is a \<^verbatim>\<open>KeyError\<close>, as on the route side.\<close>

fun snapshot_tod_sum ::
  "(string \<Rightarrow> real) \<Rightarrow> (string \<rightharpoonup> (string \<rightharpoonup> real)) \<Rightarrow> string \<Rightarrow> real \<Rightarrow>
   (string \<times> int) list \<Rightarrow> py_error + real" where
  "snapshot_tod_sum harm_weight weights time_of_day acc [] = Inr acc"
| "snapshot_tod_sum harm_weight weights time_of_day acc ((cat, count) # items) =
     (case weights cat of
        None \<Rightarrow> Inl KeyError
      | Some row \<Rightarrow>
          (case row time_of_day of
             None \<Rightarrow> Inl KeyError
           | Some m \<Rightarrow>
               snapshot_tod_sum harm_weight weights time_of_day
                 (acc + of_int count * harm_weight cat * m) items))"

text \<open>Modelled from the spec: the loop of the snapshot endpoint over the month buckets of
  one \<^verbatim>\<open>h3_index\<close> (not among the sources). Section 4.5, step 3: for each member,
  \<^verbatim>\<open>k = months_ago(month)\<close>; the member's value is the sum above if a time of day is
  provided and \<^verbatim>\<open>crime_count_weighted\<close> otherwise; \<^verbatim>\<open>w_group += w_cell * recency_weight(k)\<close>.\<close>

fun snapshot_group_loop ::
  "(string \<Rightarrow> real) \<Rightarrow> (string \<rightharpoonup> (string \<rightharpoonup> real)) \<Rightarrow> (date \<Rightarrow> date \<Rightarrow> int) \<Rightarrow> date \<Rightarrow>
   string option \<Rightarrow> real \<Rightarrow> SafetyCell list \<Rightarrow> py_error + real" where
  "snapshot_group_loop harm_weight weights calculate_months_ago current_month time_of_day w_group [] =
     Inr w_group"
| "snapshot_group_loop harm_weight weights calculate_months_ago current_month time_of_day w_group
     (cell # members) =
     (let k = calculate_months_ago (month cell) current_month
      in case (case time_of_day of
                 None \<Rightarrow> Inr (crime_count_weighted cell)
               | Some t \<Rightarrow> snapshot_tod_sum harm_weight weights t 0 (stats cell)) of
           Inl e \<Rightarrow> Inl e
         | Inr w_cell \<Rightarrow>
             snapshot_group_loop harm_weight weights calculate_months_ago current_month
               time_of_day (w_group + w_cell * get_recency_weight k) members)"

text \<open>Modelled from the spec: the value \<^verbatim>\<open>total_weighted\<close> that the snapshot endpoint stores
  for an \<^verbatim>\<open>h3_index\<close> and hands to the hexagon scoring loop (not among the sources):
  \<^verbatim>\<open>w_group\<close> of section 4.5 after the loop, started at 0.\<close>

definition snapshot_total_weighted ::
  "(string \<Rightarrow> real) \<Rightarrow> (string \<rightharpoonup> (string \<rightharpoonup> real)) \<Rightarrow> (date \<Rightarrow> date \<Rightarrow> int) \<Rightarrow> date \<Rightarrow>
   string option \<Rightarrow> SafetyCell list \<Rightarrow> py_error + real" where
  "snapshot_total_weighted harm_weight weights calculate_months_ago current_month time_of_day
     members =
     snapshot_group_loop harm_weight weights calculate_months_ago current_month time_of_day 0
       members"

subsection \<open>Predicates and sample data for the properties\<close>

text \<open>Conservation for one cell: the total is the sum of the per-category counts, and the
  weighted count is the harm-weighted sum of the counts up to a tolerance of \<open>10\<^sup>-\<^sup>6\<close>.\<close>

definition conserved :: "(string \<Rightarrow> real) \<Rightarrow> SafetyCell \<Rightarrow> bool" where
  "conserved harm_weight cell \<longleftrightarrow>
     crime_count_total cell = sum_list (map snd (stats cell)) \<and>
     \<bar>crime_count_weighted cell - (\<Sum>(cat, n) \<leftarrow> stats cell. harm_weight cat * of_int n)\<bar>
       < 1 / 10 ^ 6"

text \<open>A value of \<^verbatim>\<open>current_segment\<close> between two loop iterations: a single vertex, or a
  sub-polyline that has not reached the threshold.\<close>

definition unfinished :: "real \<Rightarrow> point list \<Rightarrow> bool" where
  "unfinished thr cur \<longleftrightarrow> cur \<noteq> [] \<and> (length cur = 1 \<or> linestring_length cur < thr)"

text \<open>Segments that follow one another along the route: the first starts at the given
  vertex and each next one starts where the one before it ends.\<close>

fun chained :: "point \<Rightarrow> point list list \<Rightarrow> bool" where
  "chained p [] = True"
| "chained p (s # ss) = (s \<noteq> [] \<and> hd s = p \<and> chained (last s) ss)"

text \<open>A time-of-day table without negative multipliers.\<close>

definition nonneg_weights :: "(string \<rightharpoonup> (string \<rightharpoonup> real)) \<Rightarrow> bool" where
  "nonneg_weights weights \<longleftrightarrow>
     (\<forall>cat row t m. weights cat = Some row \<longrightarrow> row t = Some m \<longrightarrow> 0 \<le> m)"

definition example_harm_weight :: "string \<Rightarrow> real" where
  "example_harm_weight cat =
     (if cat = ''violent-crime'' then 3.0 else if cat = ''burglary'' then 2.0 else 1.0)"

definition example_incidents :: "CrimeIncident list" where
  "example_incidents =
    [\<lparr>external_id = ''a'', incident_month = (2025, 10, 1), category_id = ''violent-crime'',
      geom = (-1.4, 50.9)\<rparr>,
     \<lparr>external_id = ''b'', incident_month = (2025, 10, 1), category_id = ''burglary'',
      geom = (-1.4, 50.9)\<rparr>,
     \<lparr>external_id = ''c'', incident_month = (2025, 10, 1), category_id = ''violent-crime'',
      geom = (-1.4, 50.9)\<rparr>]"

definition example_months_ago :: "date \<Rightarrow> date \<Rightarrow> int" where
  "example_months_ago m current_month =
     (fst current_month - fst m) * 12 + (fst (snd current_month) - fst (snd m))"

definition example_two_months :: "SafetyCell list" where
  "example_two_months =
     [\<lparr>cell_id = ''8a195da49a7ffff_202510'', month = (2025, 10, 1), crime_count_total = 2,
       crime_count_weighted = 6.0, stats = [(''violent-crime'', 2)]\<rparr>,
      \<lparr>cell_id = ''8a195da49a7ffff_202509'', month = (2025, 9, 1), crime_count_total = 2,
       crime_count_weighted = 6.0, stats = [(''violent-crime'', 2)]\<rparr>]"

definition example_night_cell :: "SafetyCell list" where
  "example_night_cell =
     [\<lparr>cell_id = ''8a195da49a7ffff_202510'', month = (2025, 10, 1), crime_count_total = 1,
       crime_count_weighted = 3.0, stats = [(''violent-crime'', 1)]\<rparr>]"

definition example_parity_cell :: SafetyCell where
  "example_parity_cell =
     \<lparr>cell_id = ''8a195da49a7ffff_202510'', month = (2025, 10, 1), crime_count_total = 40,
      crime_count_weighted = 109.45, stats = [(''violent-crime'', 40)]\<rparr>"

definition example_route :: "point list" where
  "example_route =
     [(0, 0), (0.0006, 0), (0.0012, 0), (0.0015, 0), (0.0030, 0), (0.0031, 0), (0.0035, 0)]"

section \<open>Properties\<close>

subsection \<open>Recency table\<close>

text \<open>
  Claim C6. For every integer months-ago \<open>k \<ge> 0\<close> the recency weight is the table value:
  1.00, 0.95, 0.90, 0.85, 0.75, 0.70, 0.65, 0.60, 0.55, 0.50, 0.45, 0.40, 0.35 for
  \<open>k = 0, \<dots>, 12\<close>, and 0.30 for every \<open>k > 12\<close>.
\<close>

theorem get_recency_weight_table:
  "get_recency_weight 0 = 1.00 \<and> get_recency_weight 1 = 0.95 \<and>
   get_recency_weight 2 = 0.90 \<and> get_recency_weight 3 = 0.85 \<and>
   get_recency_weight 4 = 0.75 \<and> get_recency_weight 5 = 0.70 \<and>
   get_recency_weight 6 = 0.65 \<and> get_recency_weight 7 = 0.60 \<and>
   get_recency_weight 8 = 0.55 \<and> get_recency_weight 9 = 0.50 \<and>
   get_recency_weight 10 = 0.45 \<and> get_recency_weight 11 = 0.40 \<and>
   get_recency_weight 12 = 0.35 \<and>
   (\<forall>k. 12 < k \<longrightarrow> get_recency_weight k = 0.30)"
  by (simp add: get_recency_weight_def RECENCY_WEIGHTS_def)

theorem get_recency_weight_table_witness:
  "(12::int) < 13 \<and> get_recency_weight 13 = 0.30 \<and> get_recency_weight 24 = 0.30"
  using get_recency_weight_table by simp

subsection \<open>The risk function\<close>

text \<open>
  Claim C1. For every weighted count \<open>w \<ge> 0\<close> the risk function equals the piecewise-linear
  table: 0 at 0; \<open>0.2 w / 5\<close> on \<open>(0, 5)\<close>; \<open>0.2 + 0.2 (w - 5) / 15\<close> on \<open>[5, 20)\<close>;
  \<open>0.4 + 0.2 (w - 20) / 30\<close> on \<open>[20, 50)\<close>; \<open>0.6 + 0.2 (w - 50) / 50\<close> on \<open>[50, 100)\<close>;
  \<open>0.8 + 0.15 (w - 100) / 100\<close> on \<open>[100, 200)\<close>; \<open>0.95 + 0.05 min (w - 200, 200) / 200\<close>
  from 200 on. In particular the risk is 0.2 at 5, 0.95 at 200, and 1 from 400 on.
\<close>

theorem calculate_risk_score_table:
  "calculate_risk_score 0 = 0 \<and>
   (0 < w \<and> w < 5 \<longrightarrow> calculate_risk_score w = 0.2 * w / 5) \<and>
   (5 \<le> w \<and> w < 20 \<longrightarrow> calculate_risk_score w = 0.2 + 0.2 * (w - 5) / 15) \<and>
   (20 \<le> w \<and> w < 50 \<longrightarrow> calculate_risk_score w = 0.4 + 0.2 * (w - 20) / 30) \<and>
   (50 \<le> w \<and> w < 100 \<longrightarrow> calculate_risk_score w = 0.6 + 0.2 * (w - 50) / 50) \<and>
   (100 \<le> w \<and> w < 200 \<longrightarrow> calculate_risk_score w = 0.8 + 0.15 * (w - 100) / 100) \<and>
   (200 \<le> w \<longrightarrow> calculate_risk_score w = 0.95 + 0.05 * min (w - 200) 200 / 200) \<and>
   calculate_risk_score 5 = 0.2 \<and> calculate_risk_score 200 = 0.95 \<and>
   (400 \<le> w \<longrightarrow> calculate_risk_score w = 1.0)"
  by (simp add: calculate_risk_score_def Let_def)

theorem calculate_risk_score_table_witness:
  "calculate_risk_score 3 = 0.12 \<and> calculate_risk_score 7.5 = 7 / 30 \<and>
   calculate_risk_score 30 = 7 / 15 \<and> calculate_risk_score 60 = 0.64 \<and>
   calculate_risk_score 109.45 = 0.814175 \<and> calculate_risk_score 250 = 0.9625 \<and>
   calculate_risk_score 400 = 1 \<and> calculate_risk_score 1000 = 1"
  using calculate_risk_score_table [of 3] calculate_risk_score_table [of "7.5"]
    calculate_risk_score_table [of 30] calculate_risk_score_table [of 60]
    calculate_risk_score_table [of "109.45"] calculate_risk_score_table [of 250]
    calculate_risk_score_table [of 400] calculate_risk_score_table [of 1000]
  by simp

text \<open>The risk function never goes down as its argument grows; this holds on the whole
  real line, and it is the fact the later results share.\<close>

lemma calculate_risk_score_mono:
  "a \<le> b \<Longrightarrow> calculate_risk_score a \<le> calculate_risk_score b"
  unfolding calculate_risk_score_def Let_def min_def RISK_THRESHOLDS.simps
  by (auto simp: field_simps)

text \<open>An event added to a cell never lowers the cell's query-time weighted value: the
  recency weight is positive, the harm-weighted count grows by the harm weight, and the
  time-of-day sum grows by the multiplier of the event's category.\<close>

lemma get_recency_weight_pos: "0 < get_recency_weight k"
  by (simp add: get_recency_weight_def RECENCY_WEIGHTS_def)

lemma tod_sum_shift:
  "tod_sum weights t acc items = Inr v \<Longrightarrow> tod_sum weights t (acc + d) items = Inr (v + d)"
proof (induction items arbitrary: acc)
  case Nil
  then show ?case by simp
next
  case (Cons item items)
  obtain cat n where item: "item = (cat, n)" by (cases item)
  from Cons.prems obtain row m where row: "weights cat = Some row" and m: "row t = Some m"
    by (auto simp: item split: option.splits)
  with Cons.prems have "tod_sum weights t (acc + of_int n * m) items = Inr v"
    by (simp add: item)
  then have "tod_sum weights t (acc + of_int n * m + d) items = Inr (v + d)"
    by (rule Cons.IH)
  moreover have "acc + of_int n * m + d = acc + d + of_int n * m" by simp
  ultimately show ?case using row m by (simp add: item)
qed

lemma tod_sum_incr:
  "nonneg_weights weights \<Longrightarrow> tod_sum weights t acc st = Inr v \<Longrightarrow>
   tod_sum weights t acc (stats_incr c st) = Inr v' \<Longrightarrow> v \<le> v'"
proof (induction st arbitrary: acc)
  case Nil
  then show ?case by (auto simp: nonneg_weights_def split: option.splits)
next
  case (Cons item st)
  obtain k n where item: "item = (k, n)" by (cases item)
  from Cons.prems(2) obtain row m where row: "weights k = Some row" and m: "row t = Some m"
    by (auto simp: item split: option.splits)
  from Cons.prems(1) row m have m0: "0 \<le> m" by (auto simp: nonneg_weights_def)
  from Cons.prems(2) row m have old: "tod_sum weights t (acc + of_int n * m) st = Inr v"
    by (simp add: item)
  show ?case
  proof (cases "k = c")
    case True
    with Cons.prems(3) row m
    have "tod_sum weights t (acc + of_int n * m + m) st = Inr v'"
      by (simp add: item algebra_simps)
    moreover from old have "tod_sum weights t (acc + of_int n * m + m) st = Inr (v + m)"
      by (rule tod_sum_shift)
    ultimately show ?thesis using m0 by simp
  next
    case False
    with Cons.prems(3) row m
    have "tod_sum weights t (acc + of_int n * m) (stats_incr c st) = Inr v'"
      by (simp add: item)
    with Cons.IH [OF Cons.prems(1) old] show ?thesis .
  qed
qed

lemma single_cell_risk_grows:
  assumes hw: "0 \<le> harm_weight c" and nn: "nonneg_weights weights"
    and old: "calculate_segment_risk weights cma [cell] current_month time_of_day = Inr w"
    and new: "calculate_segment_risk weights cma [add_incident harm_weight c cell] current_month
        time_of_day = Inr w'"
  shows "w \<le> w'"
proof -
  let ?r = "get_recency_weight (cma (month cell) current_month)"
  have r: "0 \<le> ?r" using get_recency_weight_pos [of "cma (month cell) current_month"] by simp
  show ?thesis
  proof (cases "time_of_day = None \<or> time_of_day = Some []")
    case True
    with old have "w = crime_count_weighted cell * ?r"
      by (auto simp: calculate_segment_risk_def Let_def)
    moreover from True new have "w' = (crime_count_weighted cell + harm_weight c) * ?r"
      by (auto simp: calculate_segment_risk_def add_incident_def Let_def)
    ultimately show ?thesis using hw r by (simp add: mult_right_mono)
  next
    case False
    then obtain t where t: "time_of_day = Some t" "t \<noteq> []" by auto
    from old t obtain v where v: "tod_sum weights t 0 (stats cell) = Inr v" "w = v * ?r"
      by (auto simp: calculate_segment_risk_def Let_def split: sum.splits)
    from new t obtain v' where v': "tod_sum weights t 0 (stats_incr c (stats cell)) = Inr v'"
      "w' = v' * ?r"
      by (auto simp: calculate_segment_risk_def add_incident_def Let_def split: sum.splits)
    from tod_sum_incr [OF nn v(1) v'(1)] have "v \<le> v'" .
    with v(2) v'(2) r show ?thesis by (simp add: mult_right_mono)
  qed
qed

lemma nonneg_CRIME_TIME_WEIGHTS: "nonneg_weights CRIME_TIME_WEIGHTS"
  by (auto simp: nonneg_weights_def CRIME_TIME_WEIGHTS_def split: if_splits)

text \<open>
  Claim C5. The risk mapping is monotone: the risk function is non-decreasing on
  \<open>[0, \<infinity>)\<close>, so raising a weighted count by an amount \<open>d \<ge> 0\<close> never lowers the risk
  score; and for fixed query parameters (current month, time of day, table of
  multipliers), an event added to a bucket never lowers the risk score of the bucket's
  query-time weighted value, given that harm weights and multipliers are not negative.
\<close>

theorem calculate_risk_score_monotone:
  "(0 \<le> a \<and> a \<le> b \<longrightarrow> calculate_risk_score a \<le> calculate_risk_score b) \<and>
   (0 \<le> w \<and> 0 \<le> d \<longrightarrow> calculate_risk_score w \<le> calculate_risk_score (w + d)) \<and>
   (0 \<le> harm_weight c \<and> nonneg_weights weights \<and>
    calculate_segment_risk weights cma [cell] current_month time_of_day = Inr v \<and>
    calculate_segment_risk weights cma [add_incident harm_weight c cell] current_month
      time_of_day = Inr v' \<longrightarrow>
    calculate_risk_score v \<le> calculate_risk_score v')"
  using single_cell_risk_grows [of harm_weight c weights cma cell current_month time_of_day v v']
  by (simp add: calculate_risk_score_mono)

theorem calculate_risk_score_monotone_witness:
  "(0::real) \<le> 3 \<and> (3::real) \<le> 6 \<and> calculate_risk_score 3 \<le> calculate_risk_score 6 \<and>
   calculate_risk_score 3 \<le> calculate_risk_score (3 + 3) \<and>
   0 \<le> example_harm_weight ''violent-crime'' \<and> nonneg_weights CRIME_TIME_WEIGHTS \<and>
   calculate_segment_risk CRIME_TIME_WEIGHTS (\<lambda>m c. 0)
     [\<lparr>cell_id = ''8a195da49a7ffff_202510'', month = (2025, 10, 1), crime_count_total = 1,
       crime_count_weighted = 3.0, stats = [(''violent-crime'', 1)]\<rparr>]
     (2025, 10, 1) (Some ''night'') = Inr 2.5 \<and>
   calculate_segment_risk CRIME_TIME_WEIGHTS (\<lambda>m c. 0)
     [add_incident example_harm_weight ''violent-crime''
        \<lparr>cell_id = ''8a195da49a7ffff_202510'', month = (2025, 10, 1), crime_count_total = 1,
         crime_count_weighted = 3.0, stats = [(''violent-crime'', 1)]\<rparr>]
     (2025, 10, 1) (Some ''night'') = Inr 5 \<and>
   calculate_risk_score 2.5 \<le> calculate_risk_score 5"
proof -
  have hw: "0 \<le> example_harm_weight ''violent-crime''" by (simp add: example_harm_weight_def)
  have old: "calculate_segment_risk CRIME_TIME_WEIGHTS (\<lambda>m c. 0)
     [\<lparr>cell_id = ''8a195da49a7ffff_202510'', month = (2025, 10, 1), crime_count_total = 1,
       crime_count_weighted = 3.0, stats = [(''violent-crime'', 1)]\<rparr>]
     (2025, 10, 1) (Some ''night'') = Inr 2.5"
    by (simp add: calculate_segment_risk_def CRIME_TIME_WEIGHTS_def get_recency_weight_def
        RECENCY_WEIGHTS_def)
  have new: "calculate_segment_risk CRIME_TIME_WEIGHTS (\<lambda>m c. 0)
     [add_incident example_harm_weight ''violent-crime''
        \<lparr>cell_id = ''8a195da49a7ffff_202510'', month = (2025, 10, 1), crime_count_total = 1,
         crime_count_weighted = 3.0, stats = [(''violent-crime'', 1)]\<rparr>]
     (2025, 10, 1) (Some ''night'') = Inr 5"
    by (simp add: calculate_segment_risk_def CRIME_TIME_WEIGHTS_def get_recency_weight_def
        RECENCY_WEIGHTS_def add_incident_def)
  from calculate_risk_score_monotone [of 3 6 3 3 example_harm_weight "''violent-crime''" CRIME_TIME_WEIGHTS "\<lambda>m c. 0" _
      "(2025, 10, 1)" "Some ''night''" "2.5" 5]
    hw nonneg_CRIME_TIME_WEIGHTS old new
  show ?thesis by simp
qed

subsection \<open>Hexagon and route scores\<close>

text \<open>With no time-of-day filter the two loops add up the same products, so the route side
  and the snapshot side see the same sum over the month buckets.\<close>

lemma loops_agree_without_filter:
  "segment_risk_loop weights cma cur None acc cells =
   snapshot_group_loop hw weights cma cur None acc cells"
  by (induction cells arbitrary: acc) (simp_all add: Let_def)

lemma snapshot_group_loop_without_filter:
  "snapshot_group_loop hw weights cma cur None acc cells =
   Inr (acc + (\<Sum>c \<leftarrow> cells. crime_count_weighted c * get_recency_weight (cma (month c) cur)))"
  by (induction cells arbitrary: acc) (simp_all add: Let_def add.assoc)

text \<open>
  Claim C3, as stated: for any cell the safety score of the snapshot equals the safety
  score of a single-segment route whose intersecting cells are exactly that cell. It fails
  for a cell with two month buckets in the window and no filter: the snapshot adds the two
  recency-weighted counts (11.7, safety 71.07) where the segment risk is their mean (5.85,
  safety 78.87). It fails with a time of day as well: one violent crime at night weighs 7.5
  in the snapshot and 2.5 in the segment risk.
\<close>

theorem hexagon_route_parity_counterexample:
  "snapshot_total_weighted example_harm_weight CRIME_TIME_WEIGHTS example_months_ago
     (2025, 10, 1) None example_two_months = Inr 11.7 \<and>
   calculate_segment_risk CRIME_TIME_WEIGHTS example_months_ago example_two_months
     (2025, 10, 1) None = Inr 5.85 \<and>
   score_route [\<lparr>segment_index = 0, start_point = (-1.4, 50.9), end_point = (-1.398, 50.9),
                 risk_score = 5.85, cell_count = 2\<rparr>] = Inr (1183 / 15) \<and>
   hexagon_score \<lparr>total_crimes = 4, total_weighted = 11.7, months = [''2025-10-01'', ''2025-09-01''],
                  agg_stats = [(''violent-crime'', 4)]\<rparr> = (217 / 750, 1066 / 15) \<and>
   snapshot_total_weighted example_harm_weight CRIME_TIME_WEIGHTS example_months_ago
     (2025, 10, 1) (Some ''night'') example_night_cell = Inr 7.5 \<and>
   calculate_segment_risk CRIME_TIME_WEIGHTS example_months_ago example_night_cell
     (2025, 10, 1) (Some ''night'') = Inr 2.5"
  by (simp add: snapshot_total_weighted_def calculate_segment_risk_def example_two_months_def
      example_night_cell_def example_months_ago_def example_harm_weight_def
      CRIME_TIME_WEIGHTS_def get_recency_weight_def RECENCY_WEIGHTS_def score_route_def
      hexagon_score_def calculate_risk_score_def Let_def)

text \<open>
  Claim C3, amended. Hexagon scoring and route scoring apply the same risk function to
  their weighted value and convert it to a safety score in the same way. For a query
  without a time-of-day filter, the segment risk over the month buckets of a cell is the
  snapshot's weighted total of that cell divided by the number of buckets; so for a cell
  with a single month bucket in the window the safety score of the snapshot equals the
  safety score of a single-segment route whose intersecting cells are exactly that bucket.
\<close>

theorem hexagon_route_parity:
  "time_of_day = None \<Longrightarrow> cells \<noteq> [] \<Longrightarrow>
   \<exists>W r. snapshot_total_weighted harm_weight weights cma current_month time_of_day cells = Inr W \<and>
         calculate_segment_risk weights cma cells current_month time_of_day = Inr r \<and>
         r = W / of_nat (length cells) \<and>
         W = (\<Sum>c \<leftarrow> cells. crime_count_weighted c * get_recency_weight (cma (month c) current_month)) \<and>
         score_route [seg\<lparr>risk_score := r\<rparr>] = Inr ((1.0 - calculate_risk_score r) * 100) \<and>
         hexagon_score (agg\<lparr>total_weighted := W\<rparr>) =
           (calculate_risk_score W, (1.0 - calculate_risk_score W) * 100) \<and>
         (length cells = 1 \<longrightarrow>
            score_route [seg\<lparr>risk_score := r\<rparr>] =
              Inr (snd (hexagon_score (agg\<lparr>total_weighted := W\<rparr>))))"
proof -
  assume tod: "time_of_day = None" and ne: "cells \<noteq> []"
  define W where
    "W = (\<Sum>c \<leftarrow> cells. crime_count_weighted c * get_recency_weight (cma (month c) current_month))"
  have snap: "snapshot_total_weighted harm_weight weights cma current_month time_of_day cells = Inr W"
    by (simp add: snapshot_total_weighted_def tod snapshot_group_loop_without_filter W_def)
  have route: "calculate_segment_risk weights cma cells current_month time_of_day
      = Inr (W / of_nat (length cells))"
    using ne
    by (simp add: calculate_segment_risk_def tod loops_agree_without_filter [of _ _ _ _ _ harm_weight]
        snapshot_group_loop_without_filter W_def)
  have sr: "score_route [seg\<lparr>risk_score := W / of_nat (length cells)\<rparr>] =
      Inr ((1.0 - calculate_risk_score (W / of_nat (length cells))) * 100)"
    by (simp add: score_route_def Let_def)
  have hx: "hexagon_score (agg\<lparr>total_weighted := W\<rparr>) =
      (calculate_risk_score W, (1.0 - calculate_risk_score W) * 100)"
    by (simp add: hexagon_score_def Let_def)
  have one: "length cells = 1 \<longrightarrow>
      score_route [seg\<lparr>risk_score := W / of_nat (length cells)\<rparr>] =
        Inr (snd (hexagon_score (agg\<lparr>total_weighted := W\<rparr>)))"
  proof
    assume "length cells = 1"
    then have "W / of_nat (length cells) = W" by simp
    then show "score_route [seg\<lparr>risk_score := W / of_nat (length cells)\<rparr>] =
        Inr (snd (hexagon_score (agg\<lparr>total_weighted := W\<rparr>)))"
      using sr hx by simp
  qed
  from snap route sr hx one W_def show ?thesis by blast
qed

theorem hexagon_route_parity_witness:
  "(None :: string option) = None \<and> [example_parity_cell] \<noteq> [] \<and> example_two_months \<noteq> [] \<and>
   snapshot_total_weighted example_harm_weight CRIME_TIME_WEIGHTS example_months_ago
     (2025, 10, 1) None [example_parity_cell] = Inr 109.45 \<and>
   calculate_segment_risk CRIME_TIME_WEIGHTS example_months_ago [example_parity_cell]
     (2025, 10, 1) None = Inr 109.45 \<and>
   score_route [\<lparr>segment_index = 0, start_point = (-1.4, 50.9), end_point = (-1.398, 50.9),
                 risk_score = 109.45, cell_count = 1\<rparr>] = Inr 18.5825 \<and>
   hexagon_score \<lparr>total_crimes = 40, total_weighted = 109.45, months = [''2025-10-01''],
                  agg_stats = [(''violent-crime'', 40)]\<rparr> = (0.814175, 18.5825) \<and>
   snapshot_total_weighted example_harm_weight CRIME_TIME_WEIGHTS example_months_ago
     (2025, 10, 1) None example_two_months = Inr 11.7 \<and>
   calculate_segment_risk CRIME_TIME_WEIGHTS example_months_ago example_two_months
     (2025, 10, 1) None = Inr (11.7 / 2)"
proof -
  let ?seg = "\<lparr>segment_index = 0, start_point = (-1.4, 50.9), end_point = (-1.398, 50.9),
      risk_score = 0, cell_count = 1\<rparr>"
  let ?agg = "\<lparr>total_crimes = 40, total_weighted = 0, months = [''2025-10-01''],
      agg_stats = [(''violent-crime'', 40)]\<rparr>"
  have one: "[example_parity_cell] \<noteq> []" by simp
  have two: "example_two_months \<noteq> []" by (simp add: example_two_months_def)
  have sum1: "(\<Sum>c \<leftarrow> [example_parity_cell]. crime_count_weighted c *
      get_recency_weight (example_months_ago (month c) (2025, 10, 1))) = 109.45"
    by (simp add: example_parity_cell_def example_months_ago_def get_recency_weight_def
        RECENCY_WEIGHTS_def)
  have sum2: "(\<Sum>c \<leftarrow> example_two_months. crime_count_weighted c *
      get_recency_weight (example_months_ago (month c) (2025, 10, 1))) = 11.7"
    by (simp add: example_two_months_def example_months_ago_def get_recency_weight_def
        RECENCY_WEIGHTS_def)
  from hexagon_route_parity [OF refl one, of example_harm_weight CRIME_TIME_WEIGHTS
      example_months_ago "(2025, 10, 1)" ?seg ?agg]
  obtain W r where
    snap: "snapshot_total_weighted example_harm_weight CRIME_TIME_WEIGHTS example_months_ago
       (2025, 10, 1) None [example_parity_cell] = Inr W"
    and route: "calculate_segment_risk CRIME_TIME_WEIGHTS example_months_ago
       [example_parity_cell] (2025, 10, 1) None = Inr r"
    and mean: "r = W / of_nat (length [example_parity_cell])"
    and total: "W = (\<Sum>c \<leftarrow> [example_parity_cell]. crime_count_weighted c *
       get_recency_weight (example_months_ago (month c) (2025, 10, 1)))"
    and same: "length [example_parity_cell] = 1 \<longrightarrow>
       score_route [?seg\<lparr>risk_score := r\<rparr>] =
         Inr (snd (hexagon_score (?agg\<lparr>total_weighted := W\<rparr>)))"
    by blast
  from total sum1 have W: "W = 109.45" by simp
  with mean have r: "r = 109.45" by simp
  have hx: "hexagon_score \<lparr>total_crimes = 40, total_weighted = 109.45, months = [''2025-10-01''],
                  agg_stats = [(''violent-crime'', 40)]\<rparr> = (0.814175, 18.5825)"
    by (simp add: hexagon_score_def calculate_risk_score_def)
  from same have same_score: "score_route [\<lparr>segment_index = 0, start_point = (-1.4, 50.9),
      end_point = (-1.398, 50.9), risk_score = 109.45, cell_count = 1\<rparr>] =
      Inr (snd (hexagon_score \<lparr>total_crimes = 40, total_weighted = 109.45,
        months = [''2025-10-01''], agg_stats = [(''violent-crime'', 40)]\<rparr>))"
    unfolding W r by simp
  have sr: "score_route [\<lparr>segment_index = 0, start_point = (-1.4, 50.9),
      end_point = (-1.398, 50.9), risk_score = 109.45, cell_count = 1\<rparr>] = Inr 18.5825"
    unfolding same_score hx snd_conv by (rule refl)
  from hexagon_route_parity [OF refl two, of example_harm_weight CRIME_TIME_WEIGHTS
      example_months_ago "(2025, 10, 1)" ?seg ?agg]
  obtain W2 r2 where
    snap2: "snapshot_total_weighted example_harm_weight CRIME_TIME_WEIGHTS example_months_ago
       (2025, 10, 1) None example_two_months = Inr W2"
    and route2: "calculate_segment_risk CRIME_TIME_WEIGHTS example_months_ago
       example_two_months (2025, 10, 1) None = Inr r2"
    and mean2: "r2 = W2 / of_nat (length example_two_months)"
    and total2: "W2 = (\<Sum>c \<leftarrow> example_two_months. crime_count_weighted c *
       get_recency_weight (example_months_ago (month c) (2025, 10, 1)))"
    by blast
  from total2 sum2 have W2: "W2 = 11.7" by simp
  have "length example_two_months = 2" by (simp add: example_two_months_def)
  with mean2 W2 have r2: "r2 = 11.7 / 2" by simp
  from snap route sr hx snap2 route2 one two show ?thesis
    unfolding W r W2 r2 by simp
qed

subsection \<open>Time-of-day weighting in the segment risk\<close>

text \<open>
  Claim C2. With a time of day supplied, the weighted value of a cell should be the sum
  over categories of count times harm weight times time-of-day multiplier: 7.5 for one
  violent crime (harm 3.0) at night (multiplier 2.5). \<^verbatim>\<open>calculate_segment_risk\<close> replaces
  the harm-weighted count by the sum of count times multiplier, so on that cell it returns
  2.5; without the filter it returns the harm-weighted 3.0.
\<close>

theorem calculate_segment_risk_night_omits_harm:
  "calculate_segment_risk CRIME_TIME_WEIGHTS (\<lambda>m c. 0)
     [\<lparr>cell_id = ''8a195da49a7ffff_202510'', month = (2025, 10, 1), crime_count_total = 1,
       crime_count_weighted = 3.0, stats = [(''violent-crime'', 1)]\<rparr>]
     (2025, 10, 1) (Some ''night'') = Inr 2.5 \<and>
   calculate_segment_risk CRIME_TIME_WEIGHTS (\<lambda>m c. 0)
     [\<lparr>cell_id = ''8a195da49a7ffff_202510'', month = (2025, 10, 1), crime_count_total = 1,
       crime_count_weighted = 3.0, stats = [(''violent-crime'', 1)]\<rparr>]
     (2025, 10, 1) None = Inr 3.0"
  by (simp add: calculate_segment_risk_def CRIME_TIME_WEIGHTS_def get_recency_weight_def RECENCY_WEIGHTS_def)

subsection \<open>Risk classes\<close>

text \<open>
  Claim C8. The safety score should be the risk complement rounded to one decimal, and
  the risk class low from 75, medium from 50 to 75, high below 50. \<^verbatim>\<open>getRiskClass\<close> puts
  its thresholds at 70 and 40: a score of 72 is classed low and a score of 45 medium, while
  the heatmap style and the route colour of the map page treat the same scores as medium
  and high. The conversion of step 3.3 rounds 18.5825 to 18.6, while \<^verbatim>\<open>score_route\<close> and
  the hexagon scoring loop return the unrounded 18.5825.
\<close>

theorem getRiskClass_thresholds_diverge:
  "getRiskClass 72 = ''low'' \<and> heatmap_style (Some 72) = (''#ca8a04'', 0.35) \<and>
   route_color 72 = ''#eab308'' \<and>
   getRiskClass 45 = ''medium'' \<and> heatmap_style (Some 45) = (''#dc2626'', 0.5) \<and>
   route_color 45 = ''#ef4444'' \<and>
   safety_score_conversion (calculate_risk_score 109.45) = 18.6 \<and>
   score_route [\<lparr>segment_index = 0, start_point = (0, 0), end_point = (0, 0),
                 risk_score = 109.45, cell_count = 1\<rparr>] = Inr 18.5825 \<and>
   hexagon_score \<lparr>total_crimes = 24, total_weighted = 109.45, months = [], agg_stats = []\<rparr> =
     (0.814175, 18.5825)"
  by (simp add: getRiskClass_def heatmap_style_def route_color_def score_route_def
      hexagon_score_def calculate_risk_score_def safety_score_conversion_def py_round1_def
      round_half_even_def Let_def)

subsection \<open>Conservation in the aggregation fold\<close>

lemma stats_incr_count: "sum_list (map snd (stats_incr c st)) = sum_list (map snd st) + 1"
  by (induction c st rule: stats_incr.induct) simp_all

lemma stats_incr_weighted:
  "(\<Sum>(cat, n) \<leftarrow> stats_incr c st. hw cat * of_int n) = (\<Sum>(cat, n) \<leftarrow> st. hw cat * of_int n) + hw c"
  for hw :: "string \<Rightarrow> real"
  by (induction c st rule: stats_incr.induct) (simp_all add: algebra_simps)

lemma add_incident_conserved: "conserved hw cell \<Longrightarrow> conserved hw (add_incident hw c cell)"
  by (simp add: conserved_def add_incident_def stats_incr_count stats_incr_weighted)

lemma new_cell_conserved: "conserved hw (new_cell cid m)"
  by (simp add: conserved_def new_cell_def)

lemma monthly_aggregation_conserved:
  "\<forall>c \<in> ran cells. conserved hw c \<Longrightarrow>
   \<forall>c \<in> ran (monthly_aggregation hw cid_of incidents cells). conserved hw c"
proof (induction incidents arbitrary: cells)
  case Nil
  then show ?case by simp
next
  case (Cons i incidents)
  define cell where "cell = (case cells (cid_of i) of None \<Rightarrow> new_cell (cid_of i) (incident_month i) | Some c \<Rightarrow> c)"
  have "conserved hw cell"
  proof (cases "cells (cid_of i)")
    case None
    then show ?thesis by (simp add: cell_def new_cell_conserved)
  next
    case (Some c)
    then have "c \<in> ran cells" by (auto simp: ran_def)
    with Cons.prems Some show ?thesis by (simp add: cell_def)
  qed
  then have step: "conserved hw (add_incident hw (category_id i) cell)"
    by (rule add_incident_conserved)
  have "\<forall>c \<in> ran (cells(cid_of i \<mapsto> add_incident hw (category_id i) cell)). conserved hw c"
  proof
    fix c assume "c \<in> ran (cells(cid_of i \<mapsto> add_incident hw (category_id i) cell))"
    then obtain k where "(cells(cid_of i \<mapsto> add_incident hw (category_id i) cell)) k = Some c"
      by (auto simp: ran_def)
    then show "conserved hw c"
      using step Cons.prems by (cases "k = cid_of i") (auto simp: ran_def)
  qed
  then have "\<forall>c \<in> ran (monthly_aggregation hw cid_of incidents
      (cells(cid_of i \<mapsto> add_incident hw (category_id i) cell))). conserved hw c"
    by (rule Cons.IH)
  then show ?case by (simp add: Let_def cell_def)
qed

text \<open>
  Claim C7. Conservation: every cell that the aggregation fold produces or updates has its
  total equal to the sum of its per-category counts and its weighted count equal to the
  harm-weighted sum of those counts within \<open>10\<^sup>-\<^sup>6\<close>; each fold step (count, category
  count and weighted count raised together) preserves both, a fresh cell has both, and so
  has every cell of the map after the loop when every cell had them before.
\<close>

theorem aggregation_conservation:
  "(conserved hw cell \<longrightarrow> conserved hw (add_incident hw c cell)) \<and>
   conserved hw (new_cell cid m) \<and>
   ((\<forall>c \<in> ran cells. conserved hw c) \<longrightarrow>
    (\<forall>c \<in> ran (monthly_aggregation hw cid_of incidents cells). conserved hw c))"
  using add_incident_conserved new_cell_conserved monthly_aggregation_conserved by blast

lemma example_agg:
  "monthly_aggregation example_harm_weight (\<lambda>i. ''8a195da49a7ffff_202510'') example_incidents Map.empty
     ''8a195da49a7ffff_202510'' =
   Some \<lparr>cell_id = ''8a195da49a7ffff_202510'', month = (2025, 10, 1), crime_count_total = 3,
         crime_count_weighted = 8, stats = [(''violent-crime'', 2), (''burglary'', 1)]\<rparr>"
  by (simp add: example_incidents_def example_harm_weight_def add_incident_def new_cell_def Let_def)

theorem aggregation_conservation_witness:
  "conserved example_harm_weight
     \<lparr>cell_id = ''8a195da49a7ffff_202510'', month = (2025, 10, 1), crime_count_total = 3,
      crime_count_weighted = 8, stats = [(''violent-crime'', 2), (''burglary'', 1)]\<rparr>"
proof -
  let ?m = "monthly_aggregation example_harm_weight (\<lambda>i. ''8a195da49a7ffff_202510'') example_incidents Map.empty"
  have "\<forall>c \<in> ran (Map.empty :: string \<rightharpoonup> SafetyCell). conserved example_harm_weight c" by simp
  then have "\<forall>c \<in> ran ?m. conserved example_harm_weight c"
    using aggregation_conservation [of example_harm_weight _ _ _ _ Map.empty] by blast
  moreover have "\<lparr>cell_id = ''8a195da49a7ffff_202510'', month = (2025, 10, 1), crime_count_total = 3,
      crime_count_weighted = 8, stats = [(''violent-crime'', 2), (''burglary'', 1)]\<rparr> \<in> ran ?m"
    using example_agg by (auto simp: ran_def)
  ultimately show ?thesis by blast
qed

subsection \<open>Route segmentation\<close>

lemma seg_dist_nonneg: "0 \<le> seg_dist p q"
  by (cases p; cases q) simp

lemma seg_dist_same_lat: "seg_dist (x1, y) (x2, y) = \<bar>x2 - x1\<bar>"
  by simp

lemma seg_dist_same_lon: "seg_dist (x, y1) (x, y2) = \<bar>y2 - y1\<bar>"
  by simp

lemma linestring_length_nonneg: "0 \<le> linestring_length ps"
  by (induction ps rule: linestring_length.induct) (simp_all add: seg_dist_nonneg del: seg_dist.simps)

lemma linestring_length_append_ge: "linestring_length xs \<le> linestring_length (xs @ ys)"
  by (induction xs rule: linestring_length.induct)
    (simp_all add: linestring_length_nonneg del: seg_dist.simps)

lemma segment_walk_acc:
  "segment_walk thr cur segs ps = segs @ segment_walk thr cur [] ps"
proof (induction ps arbitrary: cur segs)
  case Nil
  then show ?case by simp
next
  case (Cons p ps)
  show ?case
  proof (cases "thr \<le> linestring_length (cur @ [p])")
    case True
    then show ?thesis
      using Cons.IH [of "[p]" "segs @ [cur @ [p]]"] Cons.IH [of "[p]" "[cur @ [p]]"]
      by (simp add: Let_def)
  next
    case False
    then show ?thesis using Cons.IH [of "cur @ [p]" segs] by (simp add: Let_def)
  qed
qed

lemma segment_walk_below:
  "linestring_length (cur @ ps) < thr \<Longrightarrow> segment_walk thr cur segs ps = segs"
proof (induction ps arbitrary: cur)
  case Nil
  then show ?case by simp
next
  case (Cons p ps)
  have "linestring_length (cur @ [p]) \<le> linestring_length ((cur @ [p]) @ ps)"
    by (rule linestring_length_append_ge)
  with Cons.prems have below: "linestring_length (cur @ [p]) < thr" by simp
  from Cons.prems have "linestring_length ((cur @ [p]) @ ps) < thr" by simp
  then have "segment_walk thr (cur @ [p]) segs ps = segs" by (rule Cons.IH)
  with below show ?case by (simp add: Let_def)
qed

lemma segment_walk_cover:
  "cur \<noteq> [] \<Longrightarrow>
   concat (map tl (segment_walk thr cur [] ps)) @ tl (trailing_remainder thr cur ps) = tl cur @ ps"
proof (induction ps arbitrary: cur)
  case Nil
  then show ?case by simp
next
  case (Cons p ps)
  show ?case
  proof (cases "thr \<le> linestring_length (cur @ [p])")
    case True
    have "segment_walk thr cur [] (p # ps) = (cur @ [p]) # segment_walk thr [p] [] ps"
      using True segment_walk_acc [of thr "[p]" "[cur @ [p]]" ps] by (simp add: Let_def)
    moreover have "trailing_remainder thr cur (p # ps) = trailing_remainder thr [p] ps"
      using True by (simp add: Let_def)
    moreover have "concat (map tl (segment_walk thr [p] [] ps)) @ tl (trailing_remainder thr [p] ps) = tl [p] @ ps"
      by (rule Cons.IH) simp
    ultimately show ?thesis using Cons.prems by simp
  next
    case False
    have "concat (map tl (segment_walk thr (cur @ [p]) [] ps)) @ tl (trailing_remainder thr (cur @ [p]) ps)
          = tl (cur @ [p]) @ ps"
      by (rule Cons.IH) simp
    with False Cons.prems show ?thesis by (simp add: Let_def)
  qed
qed

lemma unfinished_single: "unfinished thr [p]"
  by (simp add: unfinished_def)

lemma segment_walk_segments:
  "unfinished thr cur \<Longrightarrow> s \<in> set (segment_walk thr cur [] ps) \<Longrightarrow>
   2 \<le> length s \<and> thr \<le> linestring_length s \<and>
   (length s = 2 \<or> linestring_length (butlast s) < thr)"
proof (induction ps arbitrary: cur)
  case Nil
  then show ?case by simp
next
  case (Cons p ps)
  show ?case
  proof (cases "thr \<le> linestring_length (cur @ [p])")
    case True
    have "segment_walk thr cur [] (p # ps) = (cur @ [p]) # segment_walk thr [p] [] ps"
      using True segment_walk_acc [of thr "[p]" "[cur @ [p]]" ps] by (simp add: Let_def)
    with Cons.prems(2) consider "s = cur @ [p]" | "s \<in> set (segment_walk thr [p] [] ps)"
      by auto
    then show ?thesis
    proof cases
      case 1
      with True Cons.prems(1) show ?thesis
        by (cases cur) (auto simp: unfinished_def)
    next
      case 2
      then show ?thesis using Cons.IH [OF unfinished_single] by blast
    qed
  next
    case False
    then have "unfinished thr (cur @ [p])" by (simp add: unfinished_def)
    moreover from False Cons.prems(2) have "s \<in> set (segment_walk thr (cur @ [p]) [] ps)"
      by (simp add: Let_def)
    ultimately show ?thesis by (rule Cons.IH)
  qed
qed

lemma trailing_remainder_unfinished:
  "unfinished thr cur \<Longrightarrow> unfinished thr (trailing_remainder thr cur ps)"
proof (induction ps arbitrary: cur)
  case Nil
  then show ?case by simp
next
  case (Cons p ps)
  show ?case
  proof (cases "thr \<le> linestring_length (cur @ [p])")
    case True
    then show ?thesis using Cons.IH [OF unfinished_single, of p] by (simp add: Let_def)
  next
    case False
    then have "unfinished thr (cur @ [p])" by (simp add: unfinished_def)
    then have "unfinished thr (trailing_remainder thr (cur @ [p]) ps)" by (rule Cons.IH)
    with False show ?thesis by (simp add: Let_def)
  qed
qed

lemma segment_walk_chained:
  "cur \<noteq> [] \<Longrightarrow> chained (hd cur) (segment_walk thr cur [] ps)"
proof (induction ps arbitrary: cur)
  case Nil
  then show ?case by simp
next
  case (Cons p ps)
  show ?case
  proof (cases "thr \<le> linestring_length (cur @ [p])")
    case True
    have "segment_walk thr cur [] (p # ps) = (cur @ [p]) # segment_walk thr [p] [] ps"
      using True segment_walk_acc [of thr "[p]" "[cur @ [p]]" ps] by (simp add: Let_def)
    moreover have "chained (hd [p]) (segment_walk thr [p] [] ps)" by (rule Cons.IH) simp
    ultimately show ?thesis using Cons.prems by simp
  next
    case False
    have "chained (hd (cur @ [p])) (segment_walk thr (cur @ [p]) [] ps)" by (rule Cons.IH) simp
    with False Cons.prems show ?thesis by (simp add: Let_def)
  qed
qed

lemma linestring_length_pair_lat: "linestring_length [(x1, y), (x2, y)] = \<bar>x2 - x1\<bar>"
  by simp

lemma linestring_length_pair_lon: "linestring_length [(x, y1), (x, y2)] = \<bar>y2 - y1\<bar>"
  by simp

lemma example_route_segments:
  "segment_route example_route default_max_segment_length =
     Inr [[(0, 0), (0.0006, 0), (0.0012, 0)], [(0.0012, 0), (0.0015, 0), (0.0030, 0)]]"
  by (simp add: example_route_def default_max_segment_length_def segment_route_def Let_def
      seg_dist_same_lat del: seg_dist.simps)

lemma example_route_remainder:
  "trailing_remainder default_max_segment_length [hd example_route] (tl example_route) =
     [(0.0030, 0), (0.0031, 0), (0.0035, 0)]"
  by (simp add: example_route_def default_max_segment_length_def Let_def seg_dist_same_lat
      del: seg_dist.simps)

text \<open>
  Claim C9. The mean over segments is an unguarded division. Every polyline with at least
  two vertices whose planar length stays below the segmentation threshold makes
  \<^verbatim>\<open>segment_route\<close> return the empty list, and \<^verbatim>\<open>score_route\<close> applied to the scored
  segments, whatever scoring produces them from the emitted ones, then divides by a
  length of 0 and raises \<^verbatim>\<open>ZeroDivisionError\<close>. Two distinct vertices 0.0005 degrees apart
  are such a polyline.
\<close>

theorem score_route_empty_division:
  "2 \<le> length coords \<Longrightarrow> linestring_length coords < max_segment_length \<Longrightarrow>
   segment_route coords max_segment_length = Inr [] \<and>
   (\<forall>mk. (case segment_route coords max_segment_length of
            Inl e \<Rightarrow> Inl e
          | Inr segs \<Rightarrow> score_route (map mk (enumerate 0 segs))) = Inl ZeroDivisionError)"
proof -
  assume len: "2 \<le> length coords" and short: "linestring_length coords < max_segment_length"
  from len obtain p rest where coords: "coords = p # rest" by (cases coords) auto
  from short have "linestring_length ([p] @ rest) < max_segment_length" by (simp add: coords)
  then have "segment_walk max_segment_length [p] [] rest = []" by (rule segment_walk_below)
  then have "segment_route coords max_segment_length = Inr []"
    by (simp add: segment_route_def coords)
  then show ?thesis by (simp add: score_route_def)
qed

theorem score_route_empty_division_witness:
  "distinct ([(-1.4, 50.9), (-1.3995, 50.9)] :: point list) \<and>
   segment_route [(-1.4, 50.9), (-1.3995, 50.9)] default_max_segment_length = Inr [] \<and>
   (case segment_route [(-1.4, 50.9), (-1.3995, 50.9)] default_max_segment_length of
      Inl e \<Rightarrow> Inl e
    | Inr segs \<Rightarrow>
        score_route
          (map (\<lambda>(i, s). \<lparr>segment_index = int i, start_point = hd s, end_point = last s,
                           risk_score = 0, cell_count = 0\<rparr>) (enumerate 0 segs))) =
     Inl ZeroDivisionError"
proof -
  have a: "2 \<le> length ([(-1.4, 50.9), (-1.3995, 50.9)] :: point list)" by simp
  have b: "linestring_length [(-1.4, 50.9), (-1.3995, 50.9)] < default_max_segment_length"
    unfolding linestring_length_pair_lat by (simp add: default_max_segment_length_def)
  have c: "distinct ([(-1.4, 50.9), (-1.3995, 50.9)] :: point list)" by simp
  from score_route_empty_division [OF a b] c show ?thesis by blast
qed

text \<open>
  Claim C4, as stated: a segment is emitted whenever the accumulated sub-polyline reaches
  about 100 metres of geodesic length. It fails: two vertices on a meridian 0.00099
  degrees apart are at least 100 metres apart by the document's own conversion of 111000
  metres to the degree (109.89 metres), and no segment is emitted; by the same conversion
  the default threshold of 0.001 degrees is 111 metres.
\<close>

theorem segment_route_geodesic_counterexample:
  "degrees_of_meters 100 \<le> linestring_length [(-1.4, 50.9), (-1.4, 50.90099)] \<and>
   segment_route [(-1.4, 50.9), (-1.4, 50.90099)] default_max_segment_length = Inr [] \<and>
   default_max_segment_length = degrees_of_meters 111"
proof -
  have "linestring_length [(-1.4, 50.9), (-1.4, 50.90099)] = 0.00099"
    unfolding linestring_length_pair_lon by simp
  then show ?thesis
    by (simp add: degrees_of_meters_def default_max_segment_length_def segment_route_def Let_def
        del: linestring_length.simps)
qed

text \<open>
  Claim C4, amended. The threshold is the parameter \<^verbatim>\<open>max_segment_length\<close>, compared with
  the planar length of the accumulated sub-polyline in coordinate degrees (0.001 by
  default). The walk takes the vertices in order: every emitted segment has at least two
  vertices and has reached the threshold, and it is emitted at the first vertex where it
  does (either it has two vertices or it was below the threshold without its last one);
  the first segment starts at the first vertex and each next one where the one before it
  ends; the segments followed by the unfinished rest give back the vertex sequence, and
  that rest is a single vertex or has not reached the threshold. The segments are returned
  as a list in the order of emission, so their positions are 0, 1, 2 and so on.
\<close>

theorem segment_route_degree_threshold:
  "coords \<noteq> [] \<Longrightarrow>
   \<exists>segs. segment_route coords max_segment_length = Inr segs \<and>
     (\<forall>s \<in> set segs. 2 \<le> length s \<and> max_segment_length \<le> linestring_length s \<and>
         (length s = 2 \<or> linestring_length (butlast s) < max_segment_length)) \<and>
     chained (hd coords) segs \<and>
     (let r = trailing_remainder max_segment_length [hd coords] (tl coords)
      in (length r = 1 \<or> linestring_length r < max_segment_length) \<and>
         hd coords # concat (map tl segs) @ tl r = coords)"
proof -
  assume "coords \<noteq> []"
  then obtain p rest where coords: "coords = p # rest" by (cases coords) auto
  define segs where "segs = segment_walk max_segment_length [p] [] rest"
  have run: "segment_route coords max_segment_length = Inr segs"
    by (simp add: segment_route_def coords segs_def)
  have "\<forall>s \<in> set segs. 2 \<le> length s \<and> max_segment_length \<le> linestring_length s \<and>
       (length s = 2 \<or> linestring_length (butlast s) < max_segment_length)"
    unfolding segs_def using segment_walk_segments [OF unfinished_single] by blast
  moreover have "chained (hd coords) segs"
    unfolding segs_def coords using segment_walk_chained [of "[p]"] by simp
  moreover have "unfinished max_segment_length (trailing_remainder max_segment_length [p] rest)"
    by (rule trailing_remainder_unfinished [OF unfinished_single])
  moreover have
    "p # concat (map tl segs) @ tl (trailing_remainder max_segment_length [p] rest) = coords"
    unfolding segs_def coords using segment_walk_cover [of "[p]" max_segment_length rest]
    by simp
  ultimately show ?thesis using run by (simp add: coords unfinished_def Let_def)
qed

theorem segment_route_degree_threshold_witness:
  "example_route \<noteq> [] \<and>
   segment_route example_route default_max_segment_length =
     Inr [[(0, 0), (0.0006, 0), (0.0012, 0)], [(0.0012, 0), (0.0015, 0), (0.0030, 0)]] \<and>
   default_max_segment_length \<le> linestring_length [(0, 0), (0.0006, 0), (0.0012, 0)] \<and>
   linestring_length (butlast [(0, 0), (0.0006, 0), (0.0012, 0)]) < default_max_segment_length \<and>
   default_max_segment_length \<le> linestring_length [(0.0012, 0), (0.0015, 0), (0.0030, 0)] \<and>
   linestring_length (butlast [(0.0012, 0), (0.0015, 0), (0.0030, 0)]) < default_max_segment_length \<and>
   chained (hd example_route)
     [[(0, 0), (0.0006, 0), (0.0012, 0)], [(0.0012, 0), (0.0015, 0), (0.0030, 0)]] \<and>
   linestring_length [(0.0030, 0), (0.0031, 0), (0.0035, 0)] < default_max_segment_length"
proof -
  have ne: "example_route \<noteq> []" by (simp add: example_route_def)
  from segment_route_degree_threshold [OF ne, of default_max_segment_length]
  obtain segs where run: "segment_route example_route default_max_segment_length = Inr segs"
    and minimal: "\<forall>s \<in> set segs. 2 \<le> length s \<and>
        default_max_segment_length \<le> linestring_length s \<and>
        (length s = 2 \<or> linestring_length (butlast s) < default_max_segment_length)"
    and order: "chained (hd example_route) segs"
    and rest: "let r = trailing_remainder default_max_segment_length [hd example_route]
                 (tl example_route)
               in (length r = 1 \<or> linestring_length r < default_max_segment_length) \<and>
                  hd example_route # concat (map tl segs) @ tl r = example_route"
    by blast
  from run have segs:
    "segs = [[(0, 0), (0.0006, 0), (0.0012, 0)], [(0.0012, 0), (0.0015, 0), (0.0030, 0)]]"
    by (simp add: example_route_segments)
  have first: "hd example_route = (0, 0)" by (simp add: example_route_def)
  from minimal order rest show ?thesis
    unfolding segs first
    by (simp add: ne first example_route_segments example_route_remainder)
qed

text \<open>
  Claim C10, as stated: for every polyline the emitted segments do not cover the full
  vertex sequence. It fails when the last vertex completes a segment: for two vertices
  0.002 degrees apart the single emitted segment is the whole polyline.
\<close>

theorem segment_route_full_cover_counterexample:
  "segment_route [(-1.4, 50.9), (-1.398, 50.9)] default_max_segment_length =
     Inr [[(-1.4, 50.9), (-1.398, 50.9)]]"
proof -
  have "linestring_length [(-1.4, 50.9), (-1.398, 50.9)] = 0.002"
    unfolding linestring_length_pair_lat by simp
  then show ?thesis
    by (simp add: default_max_segment_length_def segment_route_def Let_def
        del: linestring_length.simps)
qed

text \<open>
  Claim C10, amended. Segmentation discards the trailing remainder: what
  \<^verbatim>\<open>current_segment\<close> holds when the loop ends is never among the emitted segments, every
  emitted segment has reached the threshold, and the vertex sequence is the vertices of the
  segments followed by the rest of that remainder. Whenever the remainder has at least two
  vertices, that is, the last vertex did not complete a segment, the segments cover only
  a proper prefix of the vertex sequence; a route whose planar length is below the
  threshold yields no segment at all.
\<close>

theorem segment_route_discards_remainder:
  "coords \<noteq> [] \<Longrightarrow>
   \<exists>segs. segment_route coords max_segment_length = Inr segs \<and>
     (let r = trailing_remainder max_segment_length [hd coords] (tl coords)
      in r \<notin> set segs \<and>
         (length r = 1 \<or> linestring_length r < max_segment_length) \<and>
         hd coords # concat (map tl segs) @ tl r = coords \<and>
         (2 \<le> length r \<longrightarrow> length (hd coords # concat (map tl segs)) < length coords) \<and>
         (length r = 1 \<longrightarrow> hd coords # concat (map tl segs) = coords)) \<and>
     (\<forall>s \<in> set segs. max_segment_length \<le> linestring_length s) \<and>
     (linestring_length coords < max_segment_length \<longrightarrow> segs = [])"
proof -
  assume "coords \<noteq> []"
  then obtain p rest where coords: "coords = p # rest" by (cases coords) auto
  define segs where "segs = segment_walk max_segment_length [p] [] rest"
  have run: "segment_route coords max_segment_length = Inr segs"
    by (simp add: segment_route_def coords segs_def)
  define r where "r = trailing_remainder max_segment_length [p] rest"
  have seg_props: "\<forall>s \<in> set segs. 2 \<le> length s \<and> max_segment_length \<le> linestring_length s"
    unfolding segs_def using segment_walk_segments [OF unfinished_single] by blast
  have unf: "unfinished max_segment_length r"
    unfolding r_def by (rule trailing_remainder_unfinished [OF unfinished_single])
  with seg_props have notin: "r \<notin> set segs"
    by (auto simp: unfinished_def)
  have cover: "p # concat (map tl segs) @ tl r = coords"
    unfolding segs_def coords r_def
    using segment_walk_cover [of "[p]" max_segment_length rest] by simp
  have strict: "2 \<le> length r \<longrightarrow> length (p # concat (map tl segs)) < length coords"
  proof
    assume "2 \<le> length r"
    then have "0 < length (tl r)" by simp
    moreover have "length coords = length (p # concat (map tl segs)) + length (tl r)"
      using cover [symmetric] by simp
    ultimately show "length (p # concat (map tl segs)) < length coords" by linarith
  qed
  have whole: "length r = 1 \<longrightarrow> p # concat (map tl segs) = coords"
  proof
    assume "length r = 1"
    then have "tl r = []" by (cases r) simp_all
    with cover show "p # concat (map tl segs) = coords" by simp
  qed
  have short: "linestring_length coords < max_segment_length \<longrightarrow> segs = []"
    unfolding segs_def coords
    using segment_walk_below [of "[p]" rest max_segment_length "[]"] by simp
  from unf have unf': "length r = 1 \<or> linestring_length r < max_segment_length"
    by (simp add: unfinished_def)
  have "r \<notin> set segs \<and>
         (length r = 1 \<or> linestring_length r < max_segment_length) \<and>
         p # concat (map tl segs) @ tl r = coords \<and>
         (2 \<le> length r \<longrightarrow> length (p # concat (map tl segs)) < length coords) \<and>
         (length r = 1 \<longrightarrow> p # concat (map tl segs) = coords)"
    using notin unf' cover strict whole by blast
  then have "let r = trailing_remainder max_segment_length [hd coords] (tl coords)
      in r \<notin> set segs \<and>
         (length r = 1 \<or> linestring_length r < max_segment_length) \<and>
         hd coords # concat (map tl segs) @ tl r = coords \<and>
         (2 \<le> length r \<longrightarrow> length (hd coords # concat (map tl segs)) < length coords) \<and>
         (length r = 1 \<longrightarrow> hd coords # concat (map tl segs) = coords)"
    unfolding Let_def r_def coords by simp
  with run seg_props short show ?thesis by blast
qed

theorem segment_route_discards_remainder_witness:
  "example_route \<noteq> [] \<and>
   segment_route example_route default_max_segment_length =
     Inr [[(0, 0), (0.0006, 0), (0.0012, 0)], [(0.0012, 0), (0.0015, 0), (0.0030, 0)]] \<and>
   trailing_remainder default_max_segment_length [hd example_route] (tl example_route) =
     [(0.0030, 0), (0.0031, 0), (0.0035, 0)] \<and>
   ([(0.0030, 0), (0.0031, 0), (0.0035, 0)] :: point list) \<notin>
     set [[(0, 0), (0.0006, 0), (0.0012, 0)], [(0.0012, 0), (0.0015, 0), (0.0030, 0)]] \<and>
   length (hd example_route #
       concat (map tl [[(0, 0), (0.0006, 0), (0.0012, 0)], [(0.0012, 0), (0.0015, 0), (0.0030, 0)]]))
     < length example_route"
proof -
  have ne: "example_route \<noteq> []" by (simp add: example_route_def)
  from segment_route_discards_remainder [OF ne, of default_max_segment_length]
  show ?thesis
    using ne by (simp add: example_route_segments example_route_remainder)
qed

end
